theory Spec2Isabelle
  imports Complex_Main
begin

section \<open>Data model\<close>

text \<open>
  The interactor of \<^verbatim>\<open>FSMInteractor.ts\<close> and the classes bundled in
  \<^verbatim>\<open>out/FSMInteractor.js\<close> (FSM, EventSpec) and \<^verbatim>\<open>out/Action.js\<close>, as a shallow
  embedding. Objects that the source compares by identity (\<^verbatim>\<open>===\<close>, \<^verbatim>\<open>includes\<close>) or
  mutates through a shared reference are held in a store and named by a reference:
  \<open>rref\<close> for Region objects, \<open>sref\<close> for State objects. JavaScript's
  \<^verbatim>\<open>undefined\<close> for an optional reference is \<open>None\<close>.

  Record fields are global names in HOL, so the fields \<^verbatim>\<open>name\<close>, \<^verbatim>\<open>x\<close>, \<^verbatim>\<open>y\<close>,
  \<^verbatim>\<open>w\<close>, \<^verbatim>\<open>h\<close> of a Region carry the prefix \<open>r_\<close> and the name of a State is
  \<open>s_name\<close>; every other field keeps its source name.

  Coordinates are JavaScript numbers, that is IEEE doubles. Their type is the parameter
  \<open>'n\<close> of the model, and the two operations the sources apply to them are parameters
  as well, collected in the record \<open>arith\<close>: \<open>js_add\<close> is \<^verbatim>\<open>+\<close> and \<open>js_le\<close> is
  \<^verbatim>\<open><=\<close> (\<^verbatim>\<open>a >= b\<close> is \<^verbatim>\<open>b <= a\<close>). Nothing is assumed of them: no exactness of
  the sum, no order laws, so rounding, infinities and NaN are covered.
\<close>

type_synonym rref = nat
type_synonym sref = nat

datatype EventType =
  press | release | release_none | enter | exit | move_inside | any | nevermatch

datatype ActionType = set_image | clear_image | none | print | print_event

text \<open>The raw event kinds \<^verbatim>\<open>'press' | 'move' | 'release'\<close> of \<^verbatim>\<open>dispatchRawEvent\<close>.\<close>

datatype RawKind = raw_press | raw_move | raw_release

record 'n arith =
  js_add :: "'n \<Rightarrow> 'n \<Rightarrow> 'n"
  js_le :: "'n \<Rightarrow> 'n \<Rightarrow> bool"

record 'n Region =
  r_name :: string
  r_x :: 'n
  r_y :: 'n
  r_w :: 'n
  r_h :: 'n
  imageLoc :: string

record EventSpec =
  evtType :: EventType
  regionName :: string
  region :: "rref option"

record Action =
  actType :: ActionType
  onRegionName :: string
  param :: string
  onRegion :: "rref option"

record Transition =
  onEvent :: EventSpec
  actions :: "Action list"
  targetName :: string
  target :: "sref option"

record State =
  s_name :: string
  transitions :: "Transition list"

record FSM =
  regions :: "rref list"
  states :: "sref list"
  startState :: "sref option"
  currentState :: "sref option"

record 'n FSMInteractor =
  fsm :: "FSM option"
  i_x :: 'n
  i_y :: 'n
  lastPickedRegions :: "rref list"

text \<open>
  The store. \<open>regionObj\<close> and \<open>stateObj\<close> give the object behind a reference,
  \<open>nextRegion\<close> and \<open>nextState\<close> are the next unused references (objects are only
  created while a description is loaded). \<open>console\<close> is what \<^verbatim>\<open>console.log\<close> has
  printed and \<open>reported\<close> the messages handed to \<^verbatim>\<open>Err.emit\<close>.

  The last two fields are traces with no counterpart in the source: \<open>delivered\<close>
  records every call of \<^verbatim>\<open>FSM.actOnEvent\<close> (event type, region) and \<open>executed\<close>
  every call of \<^verbatim>\<open>Action.execute\<close> (action, event type, region), in call order.
  No definition reads them; they exist so that "which calls were made, in which
  order" can be stated.
\<close>

record 'n Heap =
  regionObj :: "rref \<Rightarrow> 'n Region"
  stateObj :: "sref \<Rightarrow> State"
  nextRegion :: nat
  nextState :: nat
  console :: "string list"
  reported :: "string list"
  delivered :: "(EventType \<times> rref option) list"
  executed :: "(Action \<times> EventType \<times> rref option) list"

section \<open>EventSpec.match\<close>

text \<open>
  \<^verbatim>\<open>match(evtType, regn)\<close> of \<^verbatim>\<open>EventSpec\<close>. The outer test
  \<^verbatim>\<open>if (this.evtType)\<close> is on a string of the eight event types, none of them empty,
  so it always holds; the chain below is its body.
\<close>

definition EventSpec_match :: "EventSpec \<Rightarrow> EventType \<Rightarrow> rref option \<Rightarrow> bool" where
  "EventSpec_match es evtTyp regn =
     (let event_match = (evtType es = evtTyp);
          reg_match = (region es = regn \<or> (regionName es = ''*'' \<and> region es = None))
      in if evtType es = nevermatch then False
         else if evtType es = any then reg_match
         else if evtType es = release_none then event_match
         else event_match \<and> reg_match)"

section \<open>FSMInteractor.pick\<close>

text \<open>
  The loop of \<^verbatim>\<open>pick\<close> over \<^verbatim>\<open>this._fsm.regions\<close>: \<open>pickList\<close> is the list built
  so far, a contained region is pushed at its end.
\<close>

fun pick_loop ::
  "'n arith \<Rightarrow> 'n Heap \<Rightarrow> 'n \<Rightarrow> 'n \<Rightarrow> rref list \<Rightarrow> rref list \<Rightarrow> rref list" where
  "pick_loop ar h localX localY [] pickList = pickList"
| "pick_loop ar h localX localY (reg # rest) pickList =
     pick_loop ar h localX localY rest
       (if js_le ar (r_x (regionObj h reg)) localX
           \<and> js_le ar localX (js_add ar (r_x (regionObj h reg)) (r_w (regionObj h reg)))
        then (if js_le ar (r_y (regionObj h reg)) localY
                 \<and> js_le ar localY (js_add ar (r_y (regionObj h reg)) (r_h (regionObj h reg)))
              then pickList @ [reg] else pickList)
        else pickList)"

definition pick :: "'n arith \<Rightarrow> 'n FSMInteractor \<Rightarrow> 'n Heap \<Rightarrow> 'n \<Rightarrow> 'n \<Rightarrow> rref list" where
  "pick ar it h localX localY =
     (case fsm it of
        None \<Rightarrow> []
      | Some f \<Rightarrow> rev (pick_loop ar h localX localY (regions f) []))"

section \<open>Action.execute\<close>

text \<open>The event type as the string that \<^verbatim>\<open>print_event\<close> concatenates.\<close>

fun EventType_string :: "EventType \<Rightarrow> string" where
  "EventType_string press = ''press''"
| "EventType_string release = ''release''"
| "EventType_string release_none = ''release_none''"
| "EventType_string enter = ''enter''"
| "EventType_string exit = ''exit''"
| "EventType_string move_inside = ''move_inside''"
| "EventType_string any = ''any''"
| "EventType_string nevermatch = ''nevermatch''"

text \<open>
  Modelled from the spec: the setter \<^verbatim>\<open>imageLoc\<close> of Region (\<^verbatim>\<open>Region.ts\<close> is not
  among the sources) writes the locator into the region's image slot; what else it
  starts (loading the image, a redraw request) is outside the model.
\<close>

definition set_imageLoc :: "rref \<Rightarrow> string \<Rightarrow> 'n Heap \<Rightarrow> 'n Heap" where
  "set_imageLoc r v h = h\<lparr>regionObj := (regionObj h)(r := (regionObj h r)\<lparr>imageLoc := v\<rparr>)\<rparr>"

text \<open>
  \<^verbatim>\<open>execute(evtType, evtReg)\<close> of \<^verbatim>\<open>Action\<close>. The first line records the call in
  the trace; the rest is the source's chain on \<^verbatim>\<open>this._actType\<close>.
\<close>

definition execute :: "Action \<Rightarrow> EventType \<Rightarrow> rref option \<Rightarrow> 'n Heap \<Rightarrow> 'n Heap" where
  "execute a evtTyp evtReg h0 =
     (let h = h0\<lparr>executed := executed h0 @ [(a, evtTyp, evtReg)]\<rparr>
      in if actType a = none then h
         else if actType a = set_image then
           (case onRegion a of Some r \<Rightarrow> set_imageLoc r (param a) h | None \<Rightarrow> h)
         else if actType a = clear_image then
           (case onRegion a of Some r \<Rightarrow> set_imageLoc r '''' h | None \<Rightarrow> h)
         else if actType a = print then h\<lparr>console := console h @ [param a]\<rparr>
         else if actType a = print_event then
           (let event_dump =
                  (case evtReg of
                     Some r \<Rightarrow> EventType_string evtTyp @ ''('' @ r_name (regionObj h r) @ '')''
                   | None \<Rightarrow> EventType_string evtTyp @ ''('' @ ''undefined'' @ '')'')
            in h\<lparr>console := console h @ [param a @ event_dump]\<rparr>)
         else h)"

section \<open>FSM.actOnEvent and FSM.reset\<close>

text \<open>
  Modelled from the spec: \<^verbatim>\<open>Transition.match\<close> (\<^verbatim>\<open>Transition.ts\<close> is not among the
  sources). A transition matches an event when its EventSpec does.
\<close>

definition Transition_match :: "Transition \<Rightarrow> EventType \<Rightarrow> rref option \<Rightarrow> bool" where
  "Transition_match tran evtTyp reg = EventSpec_match (onEvent tran) evtTyp reg"

text \<open>\<^verbatim>\<open>trans.actions.forEach(action => action.execute(evtType, reg))\<close>.\<close>

fun execute_each :: "Action list \<Rightarrow> EventType \<Rightarrow> rref option \<Rightarrow> 'n Heap \<Rightarrow> 'n Heap" where
  "execute_each [] evtTyp reg h = h"
| "execute_each (action # rest) evtTyp reg h =
     execute_each rest evtTyp reg (execute action evtTyp reg h)"

text \<open>
  The loop of \<^verbatim>\<open>actOnEvent\<close> over the transitions of the current state: the first
  transition that matches runs its actions, moves the FSM to its target and returns.
\<close>

fun actOnEvent_loop ::
  "EventType \<Rightarrow> rref option \<Rightarrow> Transition list \<Rightarrow> FSM \<times> 'n Heap \<Rightarrow> FSM \<times> 'n Heap" where
  "actOnEvent_loop evtTyp reg [] (f, h) = (f, h)"
| "actOnEvent_loop evtTyp reg (tran # rest) (f, h) =
     (if Transition_match tran evtTyp reg
      then (f\<lparr>currentState := target tran\<rparr>, execute_each (actions tran) evtTyp reg h)
      else actOnEvent_loop evtTyp reg rest (f, h))"

text \<open>
  \<^verbatim>\<open>actOnEvent(evtType, reg)\<close> of \<^verbatim>\<open>FSM\<close>. The call is recorded in the trace, then
  the source's body: bail out when no current state is bound, else scan.
\<close>

definition actOnEvent :: "EventType \<Rightarrow> rref option \<Rightarrow> FSM \<times> 'n Heap \<Rightarrow> FSM \<times> 'n Heap" where
  "actOnEvent evtTyp reg fh =
     (case fh of (f, h0) \<Rightarrow>
        (let h = h0\<lparr>delivered := delivered h0 @ [(evtTyp, reg)]\<rparr>
         in case currentState f of
              None \<Rightarrow> (f, h)
            | Some cs \<Rightarrow> actOnEvent_loop evtTyp reg (transitions (stateObj h cs)) (f, h)))"

text \<open>\<^verbatim>\<open>reset()\<close> of \<^verbatim>\<open>FSM\<close>.\<close>

definition reset :: "FSM \<times> 'n Heap \<Rightarrow> FSM \<times> 'n Heap" where
  "reset fh = (case fh of (f, h) \<Rightarrow> (f\<lparr>currentState := startState f\<rparr>, h))"

section \<open>FSMInteractor.dispatchRawEvent\<close>

text \<open>\<^verbatim>\<open>Array.prototype.forEach\<close>, with the callback as a state transformer.\<close>

fun forEach :: "'a list \<Rightarrow> ('a \<Rightarrow> 's \<Rightarrow> 's) \<Rightarrow> 's \<Rightarrow> 's" where
  "forEach [] callback s = s"
| "forEach (v # rest) callback s = forEach rest callback (callback v s)"

text \<open>\<^verbatim>\<open>Array.prototype.includes\<close>; on objects it compares identities, here references.\<close>

fun Array_includes :: "'a list \<Rightarrow> 'a \<Rightarrow> bool" where
  "Array_includes [] v = False"
| "Array_includes (u # rest) v = (u = v \<or> Array_includes rest v)"

text \<open>\<^verbatim>\<open>dispatchRawEvent(what, localX, localY)\<close>.\<close>

definition dispatchRawEvent ::
  "'n arith \<Rightarrow> RawKind \<Rightarrow> 'n \<Rightarrow> 'n \<Rightarrow> 'n FSMInteractor \<times> 'n Heap
     \<Rightarrow> 'n FSMInteractor \<times> 'n Heap" where
  "dispatchRawEvent ar what localX localY ith =
     (case ith of (it, h) \<Rightarrow>
        (case fsm it of
           None \<Rightarrow> (it, h)
         | Some f \<Rightarrow>
            (let currentlist = pick ar it h localX localY;
                 prevlist = lastPickedRegions it;
                 enter_region = filter (\<lambda>r. \<not> Array_includes prevlist r) currentlist;
                 exit_region = filter (\<lambda>r. \<not> Array_includes currentlist r) prevlist;
                 s1 = forEach exit_region (\<lambda>reg. actOnEvent exit (Some reg)) (f, h);
                 s2 = forEach enter_region (\<lambda>reg. actOnEvent enter (Some reg)) s1;
                 s3 = forEach currentlist
                        (\<lambda>reg. case what of
                                  raw_move \<Rightarrow> actOnEvent move_inside (Some reg)
                                | raw_press \<Rightarrow> actOnEvent press (Some reg)
                                | raw_release \<Rightarrow> actOnEvent release (Some reg)) s2;
                 s4 = (if what = raw_release \<and> length currentlist = 0
                       then actOnEvent release_none None s3 else s3)
             in (it\<lparr>fsm := Some (fst s4), lastPickedRegions := currentlist\<rparr>, snd s4))))"

text \<open>
  The event list of the spec's dispatch rule, written from the spec's words (section
  4.4, steps 2 to 4) and not from the code, for comparison with \<open>dispatchRawEvent\<close>:
  an \<open>exit\<close> for every region of \<open>previous\<close> not in \<open>current\<close>, an \<open>enter\<close> for every
  region of \<open>current\<close> not in \<open>previous\<close>, then for every region of \<open>current\<close> the
  event of the raw kind, and a single \<open>release_none\<close> without region on a release when
  \<open>current\<close> is empty.
\<close>

definition spec_kind_event :: "RawKind \<Rightarrow> EventType" where
  "spec_kind_event what =
     (case what of raw_move \<Rightarrow> move_inside | raw_press \<Rightarrow> press | raw_release \<Rightarrow> release)"

definition spec_events :: "RawKind \<Rightarrow> rref list \<Rightarrow> rref list \<Rightarrow> (EventType \<times> rref option) list" where
  "spec_events what previous current =
     map (\<lambda>r. (exit, Some r)) (filter (\<lambda>r. r \<notin> set current) previous)
     @ map (\<lambda>r. (enter, Some r)) (filter (\<lambda>r. r \<notin> set previous) current)
     @ map (\<lambda>r. (spec_kind_event what, Some r)) current
     @ (if what = raw_release \<and> current = [] then [(release_none, None)] else [])"

section \<open>FSMInteractor.draw\<close>

text \<open>
  The calls that \<^verbatim>\<open>draw\<close> makes on the drawing context, in order. \<open>RegionDraw r d\<close>
  is the call \<^verbatim>\<open>reg.draw(ctx, d)\<close> on the region \<open>r\<close>; what the region paints is
  Region's own business.
\<close>

datatype 'n CanvasCall = Save | Translate 'n 'n | RegionDraw rref bool | Restore

text \<open>
  The loop of \<^verbatim>\<open>draw\<close>. \<open>showDebugging\<close> is a local variable of the source that the
  loop body assigns, so it is threaded through the iterations.
\<close>

fun draw_loop :: "'n Heap \<Rightarrow> rref list \<Rightarrow> bool \<Rightarrow> 'n CanvasCall list \<Rightarrow> 'n CanvasCall list" where
  "draw_loop h [] showDebugging ctx = ctx"
| "draw_loop h (reg # rest) showDebugging ctx =
     (let ctx1 = ctx @ [Save];
          ctx2 = ctx1 @ [Translate (r_x (regionObj h reg)) (r_y (regionObj h reg))];
          showDebugging1 = True;
          ctx3 = ctx2 @ [RegionDraw reg showDebugging1];
          ctx4 = ctx3 @ [Restore]
      in draw_loop h rest showDebugging1 ctx4)"

definition draw :: "'n FSMInteractor \<Rightarrow> 'n Heap \<Rightarrow> 'n CanvasCall list \<Rightarrow> bool \<Rightarrow> 'n CanvasCall list" where
  "draw it h ctx showDebugging =
     (case fsm it of
        None \<Rightarrow> ctx
      | Some f \<Rightarrow> draw_loop h (regions f) showDebugging ctx)"

section \<open>Error reporting\<close>

text \<open>How a call ends: it returns a value, or it throws.\<close>

datatype 'a result = Return 'a | Throw string

text \<open>
  Modelled from the spec: \<^verbatim>\<open>Err.emit\<close> (\<^verbatim>\<open>Err.ts\<close> is not among the sources). The spec
  describes it as the single error-reporting channel, "message text + abort of the
  current operation". The message is recorded in \<open>reported\<close>. Whether the call then
  throws is not visible in the sources, and the callers are written both ways (a
  statement follows the call in \<^verbatim>\<open>startLoadFromJson\<close>; \<^verbatim>\<open>fromJson\<close> puts what follows
  in an \<^verbatim>\<open>else\<close>), so it is a parameter of every function that reports: \<open>Throwing\<close>
  is the spec's reading, \<open>Reporting\<close> the reading on which \<^verbatim>\<open>emit\<close> returns.
\<close>

datatype ErrMode = Throwing | Reporting

definition emit :: "ErrMode \<Rightarrow> string \<Rightarrow> 'n Heap \<Rightarrow> unit result \<times> 'n Heap" where
  "emit mode msg h =
     (if mode = Throwing then Throw msg else Return (), h\<lparr>reported := reported h @ [msg]\<rparr>)"

section \<open>Binding names to objects\<close>

text \<open>
  The loop shared by \<^verbatim>\<open>EventSpec.bindRegion\<close> and \<^verbatim>\<open>Action.bindRegion\<close>: the first
  region of the list whose name equals the given one; \<open>Some reg\<close> is the loop's
  assignment and early return, \<open>None\<close> is falling out of the loop.
\<close>

fun bindRegion_loop :: "'n Heap \<Rightarrow> string \<Rightarrow> rref list \<Rightarrow> rref option" where
  "bindRegion_loop h nm [] = None"
| "bindRegion_loop h nm (reg # rest) =
     (if nm = r_name (regionObj h reg) then Some reg else bindRegion_loop h nm rest)"

text \<open>
  \<^verbatim>\<open>bindRegion(regionList)\<close> of \<^verbatim>\<open>EventSpec\<close>. The method mutates its object, so the
  object as the call leaves it is returned beside the way the call ends.
\<close>

definition EventSpec_bindRegion ::
  "ErrMode \<Rightarrow> EventSpec \<Rightarrow> rref list \<Rightarrow> 'n Heap \<Rightarrow> EventSpec \<times> unit result \<times> 'n Heap" where
  "EventSpec_bindRegion mode es regionList h =
     (if regionName es = ''*'' then (es\<lparr>region := None\<rparr>, Return (), h)
      else case bindRegion_loop h (regionName es) regionList of
             Some reg \<Rightarrow> (es\<lparr>region := Some reg\<rparr>, Return (), h)
           | None \<Rightarrow>
               if evtType es = nevermatch then (es, Return (), h)
               else if (evtType es = release_none \<or> evtType es = any) \<and> regionName es = []
               then (es, Return (), h)
               else (case emit mode (''Region '' @ [CHR 0x27] @ regionName es @ [CHR 0x27]
                                      @ '' in event specification does not match any region.'') h of
                       (res, h1) \<Rightarrow> (es, res, h1)))"

text \<open>\<^verbatim>\<open>bindRegion(regionList)\<close> of \<^verbatim>\<open>Action\<close>.\<close>

definition Action_bindRegion ::
  "ErrMode \<Rightarrow> Action \<Rightarrow> rref list \<Rightarrow> 'n Heap \<Rightarrow> Action \<times> unit result \<times> 'n Heap" where
  "Action_bindRegion mode a regionList h =
     (case bindRegion_loop h (onRegionName a) regionList of
        Some reg \<Rightarrow> (a\<lparr>onRegion := Some reg\<rparr>, Return (), h)
      | None \<Rightarrow>
          if actType a = none \<or> actType a = print \<or> actType a = print_event
          then (a\<lparr>onRegion := None\<rparr>, Return (), h)
          else (case emit mode (''Region '' @ [CHR 0x27] @ onRegionName a @ [CHR 0x27]
                                 @ '' in action does not match any region.'') h of
                  (res, h1) \<Rightarrow> (a, res, h1)))"

text \<open>
  Modelled from the spec: \<^verbatim>\<open>Transition.bindTarget\<close> (\<^verbatim>\<open>Transition.ts\<close> is not among
  the sources). The target-state name is resolved against the state list by name; an
  unresolved name is reported as an error.
\<close>

fun bindTarget_loop :: "'n Heap \<Rightarrow> string \<Rightarrow> sref list \<Rightarrow> sref option" where
  "bindTarget_loop h nm [] = None"
| "bindTarget_loop h nm (st # rest) =
     (if nm = s_name (stateObj h st) then Some st else bindTarget_loop h nm rest)"

definition Transition_bindTarget ::
  "ErrMode \<Rightarrow> Transition \<Rightarrow> sref list \<Rightarrow> 'n Heap \<Rightarrow> Transition \<times> unit result \<times> 'n Heap" where
  "Transition_bindTarget mode tran stateList h =
     (case bindTarget_loop h (targetName tran) stateList of
        Some st \<Rightarrow> (tran\<lparr>target := Some st\<rparr>, Return (), h)
      | None \<Rightarrow>
          (case emit mode (''State '' @ [CHR 0x27] @ targetName tran @ [CHR 0x27]
                            @ '' in transition does not match any state.'') h of
             (res, h1) \<Rightarrow> (tran, res, h1)))"

section \<open>FSM construction\<close>

text \<open>
  The loops of \<^verbatim>\<open>_finalize\<close>, innermost first. Each returns the objects as the loop
  leaves them; a throw leaves the rest of the list untouched.
\<close>

fun finalize_actions ::
  "ErrMode \<Rightarrow> rref list \<Rightarrow> Action list \<Rightarrow> 'n Heap \<Rightarrow> Action list \<times> unit result \<times> 'n Heap" where
  "finalize_actions mode regs [] h = ([], Return (), h)"
| "finalize_actions mode regs (act # rest) h =
     (case Action_bindRegion mode act regs h of
        (act1, Throw e, h1) \<Rightarrow> (act1 # rest, Throw e, h1)
      | (act1, Return u, h1) \<Rightarrow>
          (case finalize_actions mode regs rest h1 of
             (rest1, res, h2) \<Rightarrow> (act1 # rest1, res, h2)))"

text \<open>
  The body of the loop over a state's transitions: \<^verbatim>\<open>trans.bindTarget(this.states)\<close>,
  \<^verbatim>\<open>trans.onEvent.bindRegion(this.regions)\<close>, then the actions.
\<close>

definition finalize_transition ::
  "ErrMode \<Rightarrow> sref list \<Rightarrow> rref list \<Rightarrow> Transition \<Rightarrow> 'n Heap \<Rightarrow> Transition \<times> unit result \<times> 'n Heap" where
  "finalize_transition mode sts regs tran h =
     (case Transition_bindTarget mode tran sts h of
        (tran1, Throw e, h1) \<Rightarrow> (tran1, Throw e, h1)
      | (tran1, Return u, h1) \<Rightarrow>
          (case EventSpec_bindRegion mode (onEvent tran1) regs h1 of
             (es, Throw e, h2) \<Rightarrow> (tran1\<lparr>onEvent := es\<rparr>, Throw e, h2)
           | (es, Return v, h2) \<Rightarrow>
               (case finalize_actions mode regs (actions tran1) h2 of
                  (acts, res, h3) \<Rightarrow> (tran1\<lparr>onEvent := es, actions := acts\<rparr>, res, h3))))"

fun finalize_transitions ::
  "ErrMode \<Rightarrow> sref list \<Rightarrow> rref list \<Rightarrow> Transition list \<Rightarrow> 'n Heap
     \<Rightarrow> Transition list \<times> unit result \<times> 'n Heap" where
  "finalize_transitions mode sts regs [] h = ([], Return (), h)"
| "finalize_transitions mode sts regs (tran # rest) h =
     (case finalize_transition mode sts regs tran h of
        (tran1, Throw e, h1) \<Rightarrow> (tran1 # rest, Throw e, h1)
      | (tran1, Return u, h1) \<Rightarrow>
          (case finalize_transitions mode sts regs rest h1 of
             (rest1, res, h2) \<Rightarrow> (tran1 # rest1, res, h2)))"

text \<open>
  The loop over the states. The transitions live in the State object, so what the inner
  loop leaves is written back to the store under the state's reference.
\<close>

fun finalize_states ::
  "ErrMode \<Rightarrow> sref list \<Rightarrow> rref list \<Rightarrow> sref list \<Rightarrow> 'n Heap \<Rightarrow> unit result \<times> 'n Heap" where
  "finalize_states mode sts regs [] h = (Return (), h)"
| "finalize_states mode sts regs (state # rest) h =
     (case finalize_transitions mode sts regs (transitions (stateObj h state)) h of
        (trs, res, h1) \<Rightarrow>
          (let h2 = h1\<lparr>stateObj := (stateObj h1)(state := (stateObj h1 state)\<lparr>transitions := trs\<rparr>)\<rparr>
           in case res of
                Throw e \<Rightarrow> (Throw e, h2)
              | Return u \<Rightarrow> finalize_states mode sts regs rest h2))"

text \<open>
  \<^verbatim>\<open>_finalize()\<close> of \<^verbatim>\<open>FSM\<close>. Its last loop links every region's \<^verbatim>\<open>parent\<close> to the
  FSM; parent links only carry redraw requests and are not part of the model.
\<close>

definition finalize :: "ErrMode \<Rightarrow> FSM \<Rightarrow> 'n Heap \<Rightarrow> FSM result \<times> 'n Heap" where
  "finalize mode f h =
     (let f1 = (if length (states f) > 0 then f\<lparr>currentState := startState f\<rparr> else f)
      in case finalize_states mode (states f1) (regions f1) (states f1) h of
           (Throw e, h1) \<Rightarrow> (Throw e, h1)
         | (Return u, h1) \<Rightarrow> (Return f1, h1))"

text \<open>
  The constructor \<^verbatim>\<open>new FSM(regions, states, parent)\<close>. \<^verbatim>\<open>states[0]\<close> of an empty
  array is \<^verbatim>\<open>undefined\<close>.
\<close>

definition FSM_new :: "ErrMode \<Rightarrow> rref list \<Rightarrow> sref list \<Rightarrow> 'n Heap \<Rightarrow> FSM result \<times> 'n Heap" where
  "FSM_new mode regs sts h =
     (let start = (case sts of [] \<Rightarrow> None | st # rest \<Rightarrow> Some st)
      in finalize mode \<lparr>regions = regs, states = sts, startState = start, currentState = start\<rparr> h)"

section \<open>FSM.fromJson and FSMInteractor.startLoadFromJson\<close>

text \<open>
  The parsed description. A list of the description either is an array or is not
  (\<^verbatim>\<open>Array.isArray\<close>). The records are typed as the spec's loader contract gives
  them: a region record (name, position, size, image locator) has the fields of a
  Region; a state record has a name and transition records, each with a trigger (event
  type, region name), action records (action type, optional region name, optional
  parameter) and a target-state name.
\<close>

datatype 'a json_array = NotArray | Array "'a list"

record EventSpec_json =
  ej_evtType :: EventType
  ej_region :: string

record Action_json =
  aj_act :: ActionType
  aj_region :: "string option"
  aj_param :: "string option"

record Transition_json =
  tj_onEvent :: EventSpec_json
  tj_actions :: "Action_json list"
  tj_target :: string

record State_json =
  sj_name :: string
  sj_transitions :: "Transition_json list"

record 'n FSM_json =
  j_regions :: "'n Region json_array"
  j_states :: "State_json json_array"

text \<open>
  \<^verbatim>\<open>EventSpec.fromJson\<close> and \<^verbatim>\<open>Action.fromJson\<close>, on typed records (the checks of
  \<^verbatim>\<open>Check\<close> then pass the values through): the constructors leave the region unbound,
  and \<^verbatim>\<open>Action.fromJson\<close> puts the empty string for an absent region or parameter.
\<close>

definition EventSpec_fromJson :: "EventSpec_json \<Rightarrow> EventSpec" where
  "EventSpec_fromJson evt = \<lparr>evtType = ej_evtType evt, regionName = ej_region evt, region = None\<rparr>"

definition Action_fromJson :: "Action_json \<Rightarrow> Action" where
  "Action_fromJson jsonVal =
     \<lparr>actType = aj_act jsonVal,
      onRegionName = (case aj_region jsonVal of None \<Rightarrow> [] | Some v \<Rightarrow> v),
      param = (case aj_param jsonVal of None \<Rightarrow> [] | Some v \<Rightarrow> v),
      onRegion = None\<rparr>"

text \<open>
  Modelled from the spec: \<^verbatim>\<open>Transition.fromJson\<close>, \<^verbatim>\<open>State.fromJson\<close> and
  \<^verbatim>\<open>Region.fromJson\<close> (\<^verbatim>\<open>Transition.ts\<close>, \<^verbatim>\<open>State.ts\<close>, \<^verbatim>\<open>Region.ts\<close> are not among
  the sources). Each makes a new object from its record, with no name bound yet; a
  Region and a State are entered in the store under a new reference.
\<close>

definition Transition_fromJson :: "Transition_json \<Rightarrow> Transition" where
  "Transition_fromJson jsonVal =
     \<lparr>onEvent = EventSpec_fromJson (tj_onEvent jsonVal),
      actions = map Action_fromJson (tj_actions jsonVal),
      targetName = tj_target jsonVal, target = None\<rparr>"

definition State_of_json :: "State_json \<Rightarrow> State" where
  "State_of_json jsonVal =
     \<lparr>s_name = sj_name jsonVal, transitions = map Transition_fromJson (sj_transitions jsonVal)\<rparr>"

definition Region_fromJson :: "'n Region \<Rightarrow> 'n Heap \<Rightarrow> rref \<times> 'n Heap" where
  "Region_fromJson reg h =
     (nextRegion h, h\<lparr>regionObj := (regionObj h)(nextRegion h := reg), nextRegion := nextRegion h + 1\<rparr>)"

definition State_fromJson :: "State_json \<Rightarrow> 'n Heap \<Rightarrow> sref \<times> 'n Heap" where
  "State_fromJson st h =
     (nextState h,
      h\<lparr>stateObj := (stateObj h)(nextState h := State_of_json st), nextState := nextState h + 1\<rparr>)"

text \<open>The two loops of \<^verbatim>\<open>fromJson\<close>, with the set \<open>allNames\<close> and the list built so far.\<close>

fun fromJson_regions ::
  "ErrMode \<Rightarrow> 'n Region list \<Rightarrow> string set \<Rightarrow> rref list \<Rightarrow> 'n Heap \<Rightarrow> rref list result \<times> 'n Heap" where
  "fromJson_regions mode [] allNames regs h = (Return regs, h)"
| "fromJson_regions mode (reg # rest) allNames regs h =
     (if r_name reg \<in> allNames
      then (case emit mode (''Duplicate region '' @ [CHR 0x27] @ r_name reg @ [CHR 0x27]
                             @ '' declaration in FSM'') h of
              (Throw e, h1) \<Rightarrow> (Throw e, h1)
            | (Return u, h1) \<Rightarrow> fromJson_regions mode rest allNames regs h1)
      else (case Region_fromJson reg h of
              (r, h1) \<Rightarrow> fromJson_regions mode rest (insert (r_name reg) allNames) (regs @ [r]) h1))"

fun fromJson_states ::
  "ErrMode \<Rightarrow> State_json list \<Rightarrow> string set \<Rightarrow> sref list \<Rightarrow> 'n Heap \<Rightarrow> sref list result \<times> 'n Heap" where
  "fromJson_states mode [] allNames sts h = (Return sts, h)"
| "fromJson_states mode (st # rest) allNames sts h =
     (if sj_name st \<in> allNames
      then (case emit mode (''Duplicate state '' @ [CHR 0x27] @ sj_name st @ [CHR 0x27]
                             @ '' declaration in FSM'') h of
              (Throw e, h1) \<Rightarrow> (Throw e, h1)
            | (Return u, h1) \<Rightarrow> fromJson_states mode rest allNames sts h1)
      else (case State_fromJson st h of
              (s, h1) \<Rightarrow> fromJson_states mode rest (insert (sj_name st) allNames) (sts @ [s]) h1))"

text \<open>The region part of \<^verbatim>\<open>fromJson\<close>: the array test and the loop.\<close>

definition fromJson_region_part :: "ErrMode \<Rightarrow> 'n FSM_json \<Rightarrow> 'n Heap \<Rightarrow> rref list result \<times> 'n Heap" where
  "fromJson_region_part mode fj h =
     (case j_regions fj of
        NotArray \<Rightarrow>
          (case emit mode ''Region list is not an array in FSM.fromJson()'' h of
             (Throw e, h1) \<Rightarrow> (Throw e, h1)
           | (Return u, h1) \<Rightarrow> (Return [], h1))
      | Array rs \<Rightarrow> fromJson_regions mode rs {} [] h)"

text \<open>The state part: the array test, the test for an empty array, and the loop.\<close>

definition fromJson_state_part :: "ErrMode \<Rightarrow> 'n FSM_json \<Rightarrow> 'n Heap \<Rightarrow> sref list result \<times> 'n Heap" where
  "fromJson_state_part mode fj h =
     (case j_states fj of
        NotArray \<Rightarrow>
          (case emit mode ''State list is not an array in FSM.fromJson()'' h of
             (Throw e, h1) \<Rightarrow> (Throw e, h1)
           | (Return u, h1) \<Rightarrow> (Return [], h1))
      | Array ss \<Rightarrow>
          (if length ss = 0
           then (case emit mode ''No states provide for FSM in FSM.fromJson()'' h of
                   (Throw e, h1) \<Rightarrow> (Throw e, h1)
                 | (Return u, h1) \<Rightarrow> fromJson_states mode ss {} [] h1)
           else fromJson_states mode ss {} [] h))"

text \<open>\<^verbatim>\<open>FSM.fromJson(fsm, parent)\<close>.\<close>

definition FSM_fromJson :: "ErrMode \<Rightarrow> 'n FSM_json \<Rightarrow> 'n Heap \<Rightarrow> FSM result \<times> 'n Heap" where
  "FSM_fromJson mode fj h =
     (case fromJson_region_part mode fj h of
        (Throw e, h1) \<Rightarrow> (Throw e, h1)
      | (Return regs, h1) \<Rightarrow>
          (case fromJson_state_part mode fj h1 of
             (Throw e, h2) \<Rightarrow> (Throw e, h2)
           | (Return sts, h2) \<Rightarrow> FSM_new mode regs sts h2))"

text \<open>
  What the awaited \<^verbatim>\<open>fetch\<close> and \<^verbatim>\<open>response.json()\<close> give: the fetch is rejected, the
  response is not ok, the body does not parse, or a description.
\<close>

datatype 'n Fetched = FetchRejected | NotOk | BadJson | Json "'n FSM_json"

text \<open>
  \<^verbatim>\<open>startLoadFromJson(jsonLoc)\<close>, from the point where the fetch has settled. A rejected
  \<^verbatim>\<open>await\<close> throws inside the method. The final \<^verbatim>\<open>this.damage()\<close> only requests a
  redraw.
\<close>

definition startLoadFromJson ::
  "ErrMode \<Rightarrow> string \<Rightarrow> 'n Fetched \<Rightarrow> 'n FSMInteractor \<times> 'n Heap \<Rightarrow> unit result \<times> 'n FSMInteractor \<times> 'n Heap" where
  "startLoadFromJson mode jsonLoc response ith =
     (case ith of (it, h) \<Rightarrow>
        (case response of
           FetchRejected \<Rightarrow> (Throw ''fetch rejected'', it, h)
         | NotOk \<Rightarrow>
             (case emit mode (''Load of FSM from '' @ [CHR 0x22] @ jsonLoc @ [CHR 0x22] @ '' failed'') h of
                (Throw e, h1) \<Rightarrow> (Throw e, it, h1)
              | (Return u, h1) \<Rightarrow> (Return (), it\<lparr>fsm := None\<rparr>, h1))
         | BadJson \<Rightarrow> (Throw ''response body is not JSON'', it, h)
         | Json data \<Rightarrow>
             (case FSM_fromJson mode data h of
                (Throw e, h1) \<Rightarrow> (Throw e, it, h1)
              | (Return f, h1) \<Rightarrow> (Return (), it\<lparr>fsm := Some f\<rparr>, h1))))"

section \<open>Failures of a load\<close>

text \<open>
  The failures the spec's error taxonomy lists, as conditions on what was fetched. An
  event specification needs its region name resolved unless \<^verbatim>\<open>bindRegion\<close> lets it go
  unbound; an action needs it for the two image actions.
\<close>

definition event_needs_region :: "EventSpec \<Rightarrow> bool" where
  "event_needs_region es \<longleftrightarrow>
     regionName es \<noteq> ''*'' \<and> evtType es \<noteq> nevermatch \<and>
     \<not> ((evtType es = release_none \<or> evtType es = any) \<and> regionName es = [])"

definition action_needs_region :: "Action \<Rightarrow> bool" where
  "action_needs_region a \<longleftrightarrow> actType a = set_image \<or> actType a = clear_image"

text \<open>
  A transition with an unresolvable name, given the declared state names and region
  names: its target state, its trigger's region, or the region of one of its actions.
\<close>

definition unresolvable :: "string list \<Rightarrow> string list \<Rightarrow> Transition \<Rightarrow> bool" where
  "unresolvable snames rnames tran \<longleftrightarrow>
     targetName tran \<notin> set snames
     \<or> (event_needs_region (onEvent tran) \<and> regionName (onEvent tran) \<notin> set rnames)
     \<or> (\<exists>a \<in> set (actions tran). action_needs_region a \<and> onRegionName a \<notin> set rnames)"

text \<open>
  A malformed description: a list that is not an array, an empty state list, a
  duplicate region or state name, or an unresolvable name in some transition.
\<close>

definition malformed :: "'n FSM_json \<Rightarrow> bool" where
  "malformed d \<longleftrightarrow>
     (case j_regions d of
        NotArray \<Rightarrow> True
      | Array rs \<Rightarrow>
          (case j_states d of
             NotArray \<Rightarrow> True
           | Array ss \<Rightarrow>
               ss = [] \<or> \<not> distinct (map r_name rs) \<or> \<not> distinct (map sj_name ss)
               \<or> (\<exists>st \<in> set ss. \<exists>tj \<in> set (sj_transitions st).
                     unresolvable (map sj_name ss) (map r_name rs) (Transition_fromJson tj))))"

text \<open>A failed load: the fetch failed, the body did not parse, or the description is malformed.\<close>

definition load_failure :: "'n Fetched \<Rightarrow> bool" where
  "load_failure response \<longleftrightarrow>
     (case response of Json d \<Rightarrow> malformed d | _ \<Rightarrow> True)"

section \<open>A small machine for concrete evaluation\<close>

text \<open>
  The coordinates of the example are small integers, on which the sum and the comparison
  of doubles are the exact ones.
\<close>

definition ex_arith :: "real arith" where
  "ex_arith = \<lparr>js_add = (+), js_le = (\<le>)\<rparr>"

text \<open>
  Two regions side by side, \<open>A\<close> at (0,0) and \<open>B\<close> at (20,0), both 10 by 10, and two
  states: \<open>idle\<close> goes to \<open>over\<close> when the pointer enters \<open>A\<close>; \<open>over\<close>
  stays on a press of \<open>B\<close>, returns to \<open>idle\<close> when the pointer leaves \<open>A\<close>,
  and has a catch-all transition last. All names are bound.
\<close>

definition ex_regionA :: "real Region" where
  "ex_regionA = \<lparr>r_name = ''A'', r_x = 0, r_y = 0, r_w = 10, r_h = 10, imageLoc = ''''\<rparr>"

definition ex_regionB :: "real Region" where
  "ex_regionB = \<lparr>r_name = ''B'', r_x = 20, r_y = 0, r_w = 10, r_h = 10, imageLoc = ''''\<rparr>"

definition ex_idle :: State where
  "ex_idle = \<lparr>s_name = ''idle'', transitions =
     [\<lparr>onEvent = \<lparr>evtType = enter, regionName = ''A'', region = Some 0\<rparr>,
       actions = [\<lparr>actType = set_image, onRegionName = ''A'', param = ''hover.png'', onRegion = Some 0\<rparr>,
                  \<lparr>actType = print_event, onRegionName = '''', param = ''got '', onRegion = None\<rparr>],
       targetName = ''over'', target = Some 1\<rparr>]\<rparr>"

definition ex_over :: State where
  "ex_over = \<lparr>s_name = ''over'', transitions =
     [\<lparr>onEvent = \<lparr>evtType = press, regionName = ''B'', region = Some 1\<rparr>,
       actions = [], targetName = ''over'', target = Some 1\<rparr>,
      \<lparr>onEvent = \<lparr>evtType = exit, regionName = ''A'', region = Some 0\<rparr>,
       actions = [\<lparr>actType = clear_image, onRegionName = ''A'', param = '''', onRegion = Some 0\<rparr>],
       targetName = ''idle'', target = Some 0\<rparr>,
      \<lparr>onEvent = \<lparr>evtType = any, regionName = ''*'', region = None\<rparr>,
       actions = [\<lparr>actType = print, onRegionName = '''', param = ''late'', onRegion = None\<rparr>],
       targetName = ''over'', target = Some 1\<rparr>]\<rparr>"

definition ex_heap :: "real Heap" where
  "ex_heap = \<lparr>regionObj = (\<lambda>_. ex_regionA)(1 := ex_regionB),
              stateObj = (\<lambda>_. ex_idle)(1 := ex_over),
              nextRegion = 2, nextState = 2, console = [], reported = [],
              delivered = [], executed = []\<rparr>"

definition ex_fsm :: FSM where
  "ex_fsm = \<lparr>regions = [0, 1], states = [0, 1], startState = Some 0, currentState = Some 0\<rparr>"

definition ex_interactor :: "real FSMInteractor" where
  "ex_interactor = \<lparr>fsm = Some ex_fsm, i_x = 0, i_y = 0, lastPickedRegions = []\<rparr>"

text \<open>
  Three descriptions: the machine above without the press and catch-all transitions, a
  description whose only transition names a state that is not declared, and one with an
  empty state list.
\<close>

definition ex_description :: "real FSM_json" where
  "ex_description =
     \<lparr>j_regions = Array [ex_regionA, ex_regionB],
      j_states = Array
        [\<lparr>sj_name = ''idle'', sj_transitions =
            [\<lparr>tj_onEvent = \<lparr>ej_evtType = enter, ej_region = ''A''\<rparr>,
              tj_actions = [\<lparr>aj_act = set_image, aj_region = Some ''A'', aj_param = Some ''hover.png''\<rparr>,
                            \<lparr>aj_act = print_event, aj_region = None, aj_param = Some ''got ''\<rparr>],
              tj_target = ''over''\<rparr>]\<rparr>,
         \<lparr>sj_name = ''over'', sj_transitions =
            [\<lparr>tj_onEvent = \<lparr>ej_evtType = exit, ej_region = ''A''\<rparr>,
              tj_actions = [\<lparr>aj_act = clear_image, aj_region = Some ''A'', aj_param = None\<rparr>],
              tj_target = ''idle''\<rparr>]\<rparr>]\<rparr>"

definition ex_dangling :: "real FSM_json" where
  "ex_dangling =
     \<lparr>j_regions = Array [ex_regionA],
      j_states = Array
        [\<lparr>sj_name = ''idle'', sj_transitions =
            [\<lparr>tj_onEvent = \<lparr>ej_evtType = press, ej_region = ''A''\<rparr>,
              tj_actions = [], tj_target = ''nowhere''\<rparr>]\<rparr>]\<rparr>"

definition ex_empty :: "real FSM_json" where
  "ex_empty = \<lparr>j_regions = Array [ex_regionA], j_states = Array []\<rparr>"

text \<open>
  The sum of doubles on non-negative integers below \<open>2^1023\<close>: the exact sum rounded to
  a 53-bit significand, to nearest with ties to even. \<open>drop_bits n\<close> is the number of low
  bits that do not fit. With it, a region at \<open>2^53\<close> of width 3: the exact right edge
  \<open>2^53 + 3\<close> is no double, and the sum the program computes is \<open>2^53 + 4\<close>.
\<close>

fun drop_bits :: "nat \<Rightarrow> nat" where
  "drop_bits n = (if n < 9007199254740992 then 0 else Suc (drop_bits (n div 2)))"

declare drop_bits.simps [simp del]

definition round53 :: "nat \<Rightarrow> nat" where
  "round53 n =
     (let k = drop_bits n; q = n div 2 ^ k; r = n mod 2 ^ k
      in if k = 0 then n
         else if 2 ^ k < 2 * r \<or> (2 * r = 2 ^ k \<and> odd q) then (q + 1) * 2 ^ k
         else q * 2 ^ k)"

definition ex_double_arith :: "nat arith" where
  "ex_double_arith = \<lparr>js_add = (\<lambda>a b. round53 (a + b)), js_le = (\<le>)\<rparr>"

definition ex_far_heap :: "nat Heap" where
  "ex_far_heap = \<lparr>regionObj = (\<lambda>_. \<lparr>r_name = ''far'', r_x = 9007199254740992, r_y = 0, r_w = 3,
                                       r_h = 10, imageLoc = []\<rparr>),
                  stateObj = (\<lambda>_. \<lparr>s_name = ''only'', transitions = []\<rparr>),
                  nextRegion = 1, nextState = 1, console = [], reported = [],
                  delivered = [], executed = []\<rparr>"

definition ex_far_interactor :: "nat FSMInteractor" where
  "ex_far_interactor =
     \<lparr>fsm = Some \<lparr>regions = [0], states = [0], startState = Some 0, currentState = Some 0\<rparr>,
      i_x = 0, i_y = 0, lastPickedRegions = []\<rparr>"

lemmas ex_defs = ex_regionA_def ex_regionB_def ex_idle_def ex_over_def ex_heap_def ex_fsm_def
  ex_interactor_def ex_arith_def

section \<open>Properties\<close>

subsection \<open>EventSpec.match\<close>

text \<open>
  C2. For every EventSpec and every event (event type, optional region), \<open>match\<close>
  is false when the spec's type is \<open>nevermatch\<close>, is the region test alone when it
  is \<open>any\<close>, is the event-type test alone when it is \<open>release_none\<close>, and is both
  tests together for every other type; the event-type test is equality of the two
  types, the region test is equality of the bound region with the event's region, or
  a region name \<open>*\<close> with no bound region.
\<close>

theorem match_by_spec_type:
  "EventSpec_match es t r =
     (case evtType es of
        nevermatch \<Rightarrow> False
      | any \<Rightarrow> (region es = r \<or> (regionName es = ''*'' \<and> region es = None))
      | release_none \<Rightarrow> (evtType es = t)
      | _ \<Rightarrow> (evtType es = t) \<and> (region es = r \<or> (regionName es = ''*'' \<and> region es = None)))"
  by (cases "evtType es") (simp_all add: EventSpec_match_def)


subsection \<open>pick\<close>

lemma pick_loop_filter:
  "pick_loop ar h px py rs acc =
     acc @ filter (\<lambda>R. js_le ar (r_x (regionObj h R)) px
                     \<and> js_le ar px (js_add ar (r_x (regionObj h R)) (r_w (regionObj h R)))
                     \<and> js_le ar (r_y (regionObj h R)) py
                     \<and> js_le ar py (js_add ar (r_y (regionObj h R)) (r_h (regionObj h R)))) rs"
  by (induction rs arbitrary: acc) auto

text \<open>
  C4. With an FSM installed, a region is in the result of \<open>pick\<close> at a point exactly
  when it is a region of the FSM and the point lies in its box, all four edges
  included: \<open>x \<le> px \<le> x + w\<close> and \<open>y \<le> py \<le> y + h\<close>, with the sum and the
  comparison of the program's numbers; and the result is the FSM's region list reversed,
  restricted to the regions that contain the point.
\<close>

theorem pick_contains_reversed:
  assumes "fsm it = Some f"
  shows "(\<forall>R. R \<in> set (pick ar it h px py) \<longleftrightarrow>
            R \<in> set (regions f) \<and>
            js_le ar (r_x (regionObj h R)) px \<and>
            js_le ar px (js_add ar (r_x (regionObj h R)) (r_w (regionObj h R))) \<and>
            js_le ar (r_y (regionObj h R)) py \<and>
            js_le ar py (js_add ar (r_y (regionObj h R)) (r_h (regionObj h R))))
       \<and> pick ar it h px py =
            filter (\<lambda>R. js_le ar (r_x (regionObj h R)) px
                     \<and> js_le ar px (js_add ar (r_x (regionObj h R)) (r_w (regionObj h R)))
                     \<and> js_le ar (r_y (regionObj h R)) py
                     \<and> js_le ar py (js_add ar (r_y (regionObj h R)) (r_h (regionObj h R))))
              (rev (regions f))"
  using assms by (auto simp: pick_def pick_loop_filter rev_filter)

theorem pick_contains_reversed_witness:
  "fsm ex_interactor = Some ex_fsm \<and> pick ex_arith ex_interactor ex_heap 25 10 = [1]
   \<and> pick ex_arith (ex_interactor\<lparr>fsm := Some (ex_fsm\<lparr>regions := [0, 1, 0]\<rparr>)\<rparr>) ex_heap 10 0
       = [0, 0]"
  using pick_contains_reversed [of ex_interactor ex_fsm ex_arith ex_heap 25 10]
    pick_contains_reversed [of "ex_interactor\<lparr>fsm := Some (ex_fsm\<lparr>regions := [0, 1, 0]\<rparr>)\<rparr>"
       "ex_fsm\<lparr>regions := [0, 1, 0]\<rparr>" ex_arith ex_heap 10 0]
  by (simp add: ex_defs)

text \<open>
  Where the sum of doubles rounds, the box is the rounded one: the region at \<open>2^53\<close> of
  width 3 contains the point \<open>2^53 + 4\<close>, which lies beyond the exact sum \<open>2^53 + 3\<close>.
\<close>

lemma drop_bits_example: "drop_bits 9007199254740995 = 1"
  by (simp add: drop_bits.simps)

lemma round53_small: "n < 9007199254740992 \<Longrightarrow> round53 n = n"
  by (simp add: round53_def drop_bits.simps)

lemma round53_example: "round53 (9007199254740992 + 3) = 9007199254740996"
  using drop_bits_example by (simp add: round53_def Let_def)

lemma pick_rounded_sum_example:
  "pick ex_double_arith ex_far_interactor ex_far_heap 9007199254740996 5 = [0]"
  using round53_example
  by (simp add: pick_def ex_double_arith_def ex_far_interactor_def ex_far_heap_def round53_small)

subsection \<open>Traces of calls\<close>

lemma execute_delivered: "delivered (execute a e r h) = delivered h"
  by (simp add: execute_def set_imageLoc_def Let_def split: option.splits)


lemma execute_each_delivered: "delivered (execute_each as e r h) = delivered h"
  by (induction as arbitrary: h) (simp_all add: execute_delivered)


lemma actOnEvent_loop_delivered:
  "delivered (snd (actOnEvent_loop e r ts (f, h))) = delivered h"
  by (induction ts) (simp_all add: execute_each_delivered)

lemma actOnEvent_delivered:
  "delivered (snd (actOnEvent e r fh)) = delivered (snd fh) @ [(e, r)]"
  by (cases fh) (simp add: actOnEvent_def Let_def actOnEvent_loop_delivered split: option.splits)

lemma forEach_delivered:
  assumes "\<And>v s. delivered (snd (cb v s)) = delivered (snd s) @ [ev v]"
  shows "delivered (snd (forEach vs cb s)) = delivered (snd s) @ map ev vs"
  using assms by (induction vs arbitrary: s) simp_all

lemma includes_set: "Array_includes xs v \<longleftrightarrow> v \<in> set xs"
  by (induction xs) auto

lemma actOnEvent_loop_skip:
  assumes "\<forall>u \<in> set before. \<not> Transition_match u e r"
  shows "actOnEvent_loop e r (before @ rest) (f, h) = actOnEvent_loop e r rest (f, h)"
  using assms by (induction before) simp_all

subsection \<open>dispatchRawEvent\<close>

lemma forEach_fold: "forEach vs cb s = fold cb vs s"
  by (induction vs arbitrary: s) simp_all

lemma fold_actOnEvent_map:
  "fold (\<lambda>ev. actOnEvent (fst ev) (snd ev)) (map (\<lambda>r. (e, Some r)) vs) s
     = fold (\<lambda>r. actOnEvent e (Some r)) vs s"
  by (induction vs arbitrary: s) simp_all

lemma fold_actOnEvent_delivered:
  "delivered (snd (fold (\<lambda>ev. actOnEvent (fst ev) (snd ev)) evs s)) = delivered (snd s) @ evs"
  by (induction evs arbitrary: s) (simp_all add: actOnEvent_delivered)

text \<open>
  C1. With an FSM installed, one call of \<open>dispatchRawEvent\<close> is the same as handing the
  events of the spec's rule to \<open>actOnEvent\<close> one after the other, in their order,
  starting from the installed FSM and the store as they are: the interactor then holds
  the FSM these calls leave, the store is the one they leave, and the stored pick is the
  current one. The events are: an \<open>exit\<close> for each previously picked region that is not
  picked now (in the previous pick's order), an \<open>enter\<close> for each region picked now that
  was not picked before (in the current pick's order), then for each region picked now
  one event of the raw kind (move gives \<open>move_inside\<close>, press gives \<open>press\<close>, release
  gives \<open>release\<close>), and a single \<open>release_none\<close> without region when the kind is release
  and nothing is picked. The record of calls grows by exactly these events.
\<close>

theorem dispatch_event_order:
  assumes "fsm it = Some f"
  shows "dispatchRawEvent ar what lx ly (it, h) =
           (it\<lparr>fsm := Some (fst (fold (\<lambda>ev. actOnEvent (fst ev) (snd ev))
                                  (spec_events what (lastPickedRegions it) (pick ar it h lx ly))
                                  (f, h))),
                lastPickedRegions := pick ar it h lx ly\<rparr>,
            snd (fold (\<lambda>ev. actOnEvent (fst ev) (snd ev))
                   (spec_events what (lastPickedRegions it) (pick ar it h lx ly)) (f, h)))
       \<and> delivered (snd (dispatchRawEvent ar what lx ly (it, h))) =
           delivered h @ spec_events what (lastPickedRegions it) (pick ar it h lx ly)
       \<and> lastPickedRegions (fst (dispatchRawEvent ar what lx ly (it, h))) = pick ar it h lx ly"
proof -
  let ?cur = "pick ar it h lx ly"
  let ?evs = "spec_events what (lastPickedRegions it) ?cur"
  let ?run = "fold (\<lambda>ev. actOnEvent (fst ev) (snd ev))"
  have kind: "(\<lambda>reg. case what of
                  raw_move \<Rightarrow> actOnEvent move_inside (Some reg)
                | raw_press \<Rightarrow> actOnEvent press (Some reg)
                | raw_release \<Rightarrow> actOnEvent release (Some reg))
              = (\<lambda>reg. actOnEvent (spec_kind_event what) (Some reg))"
    by (cases what) (simp_all add: spec_kind_event_def)
  have main: "dispatchRawEvent ar what lx ly (it, h) =
      (it\<lparr>fsm := Some (fst (?run ?evs (f, h))), lastPickedRegions := ?cur\<rparr>, snd (?run ?evs (f, h)))"
    using assms
    by (simp add: dispatchRawEvent_def Let_def forEach_fold kind spec_events_def
        fold_actOnEvent_map includes_set)
  have "delivered (snd (?run ?evs (f, h))) = delivered h @ ?evs"
    by (simp add: fold_actOnEvent_delivered)
  with main show ?thesis by simp
qed

theorem dispatch_event_order_witness:
  "fsm ex_interactor = Some ex_fsm
   \<and> fsm (fst (dispatchRawEvent ex_arith raw_move 5 5 (ex_interactor, ex_heap)))
       = Some (ex_fsm\<lparr>currentState := Some 1\<rparr>)
   \<and> lastPickedRegions (fst (dispatchRawEvent ex_arith raw_move 5 5 (ex_interactor, ex_heap))) = [0]
   \<and> delivered (snd (dispatchRawEvent ex_arith raw_move 5 5 (ex_interactor, ex_heap)))
       = [(enter, Some 0), (move_inside, Some 0)]
   \<and> console (snd (dispatchRawEvent ex_arith raw_move 5 5 (ex_interactor, ex_heap)))
       = [''got enter(A)'', ''late'']
   \<and> imageLoc (regionObj (snd (dispatchRawEvent ex_arith raw_move 5 5 (ex_interactor, ex_heap))) 0)
       = ''hover.png''
   \<and> delivered (snd (dispatchRawEvent ex_arith raw_release 50 50
         (ex_interactor\<lparr>lastPickedRegions := [1]\<rparr>, ex_heap)))
       = [(exit, Some 1), (release_none, None)]"
  using dispatch_event_order [of ex_interactor ex_fsm ex_arith raw_move 5 5 ex_heap]
    dispatch_event_order [of "ex_interactor\<lparr>lastPickedRegions := [1]\<rparr>" ex_fsm ex_arith
       raw_release 50 50 ex_heap]
  by (simp add: ex_defs pick_def spec_events_def spec_kind_event_def actOnEvent_def
      Transition_match_def EventSpec_match_def execute_def set_imageLoc_def Let_def)

subsection \<open>actOnEvent\<close>



text \<open>
  C6. When the FSM has a current state and no transition of it matches the event, the
  call changes neither the FSM nor the regions nor the console, and executes no action;
  it has no failing outcome.
\<close>

theorem actOnEvent_no_match:
  assumes "currentState f = Some cs"
      and "\<forall>u \<in> set (transitions (stateObj h cs)). \<not> Transition_match u e r"
  shows "actOnEvent e r (f, h) = (f, h\<lparr>delivered := delivered h @ [(e, r)]\<rparr>)
       \<and> currentState (fst (actOnEvent e r (f, h))) = currentState f
       \<and> executed (snd (actOnEvent e r (f, h))) = executed h
       \<and> regionObj (snd (actOnEvent e r (f, h))) = regionObj h
       \<and> console (snd (actOnEvent e r (f, h))) = console h"
  using assms actOnEvent_loop_skip [of "transitions (stateObj h cs)" e r "[]" f
      "h\<lparr>delivered := delivered h @ [(e, r)]\<rparr>"]
  by (simp add: actOnEvent_def Let_def)

theorem actOnEvent_no_match_witness:
  "currentState ex_fsm = Some 0
   \<and> actOnEvent press (Some 1) (ex_fsm, ex_heap) = (ex_fsm, ex_heap\<lparr>delivered := [(press, Some 1)]\<rparr>)"
  using actOnEvent_no_match [of ex_fsm 0 ex_heap press "Some 1"]
  by (simp add: ex_defs Transition_match_def EventSpec_match_def)

subsection \<open>draw\<close>

lemma draw_loop_calls:
  "draw_loop h rs d ctx =
     ctx @ concat (map (\<lambda>r. [Save, Translate (r_x (regionObj h r)) (r_y (regionObj h r)),
                               RegionDraw r True, Restore]) rs)"
  by (induction rs arbitrary: d ctx) (simp_all add: Let_def)

text \<open>
  C8. \<open>draw\<close> visits the regions in declared order and translates the origin by each
  region's position, but every region is drawn with the debugging flag set: called with
  \<open>False\<close> on the two regions of the example, both \<open>RegionDraw\<close> calls carry \<open>True\<close>.
\<close>

theorem draw_overrides_showDebugging:
  "draw ex_interactor ex_heap [] False =
     [Save, Translate 0 0, RegionDraw 0 True, Restore,
      Save, Translate 20 0, RegionDraw 1 True, Restore]"
  by (simp add: draw_def ex_defs)


subsection \<open>An FSM without states\<close>

text \<open>
  C10. An FSM constructed from an empty state list has no start state and no current
  state (the constructor reports nothing), and on such an FSM every call of
  \<open>actOnEvent\<close> returns at once: the FSM and the store are as before, apart from the
  record of the call itself, and no action is executed.
\<close>

theorem actOnEvent_unbound_noop:
  "FSM_new mode regs [] h =
     (Return \<lparr>regions = regs, states = [], startState = None, currentState = None\<rparr>, h)
   \<and> actOnEvent e r (\<lparr>regions = regs, states = [], startState = None, currentState = None\<rparr>, h2) =
       (\<lparr>regions = regs, states = [], startState = None, currentState = None\<rparr>,
        h2\<lparr>delivered := delivered h2 @ [(e, r)]\<rparr>)
   \<and> executed (snd (actOnEvent e r (\<lparr>regions = regs, states = [], startState = None, currentState = None\<rparr>, h2))) = executed h2"
  by (simp add: FSM_new_def finalize_def actOnEvent_def)

subsection \<open>reset\<close>

lemma finalize_startState:
  "fst (finalize mode f h) = Return g \<Longrightarrow> startState g = startState f"
  by (auto simp: finalize_def Let_def split: prod.splits result.splits if_splits)

text \<open>
  C9. \<open>reset\<close> sets the current state to the start state and changes nothing else:
  start state, region list and state list of the FSM are as before and the store is
  untouched, so every region keeps its image locator. The start state is the first
  state handed to the constructor.
\<close>

theorem reset_restores_start_only:
  "currentState (fst (reset (f, h))) = startState f
   \<and> startState (fst (reset (f, h))) = startState f
   \<and> regions (fst (reset (f, h))) = regions f
   \<and> states (fst (reset (f, h))) = states f
   \<and> snd (reset (f, h)) = h
   \<and> imageLoc (regionObj (snd (reset (f, h))) r) = imageLoc (regionObj h r)
   \<and> (fst (FSM_new mode regs sts h) = Return g \<longrightarrow>
        startState g = (case sts of [] \<Rightarrow> None | st # rest \<Rightarrow> Some st))"
  by (auto simp: reset_def FSM_new_def Let_def dest: finalize_startState)

lemma ex_FSM_new: "fst (FSM_new Throwing [0, 1] [0, 1] ex_heap) = Return ex_fsm"
  by (simp add: FSM_new_def finalize_def finalize_transition_def Transition_bindTarget_def
      EventSpec_bindRegion_def Action_bindRegion_def ex_defs Let_def)

theorem reset_restores_start_only_witness:
  "fst (FSM_new Throwing [0, 1] [0, 1] ex_heap) = Return ex_fsm
   \<and> startState ex_fsm = Some 0
   \<and> currentState (fst (reset (ex_fsm\<lparr>currentState := Some 1\<rparr>, ex_heap))) = Some 0"
  using reset_restores_start_only [of "ex_fsm\<lparr>currentState := Some 1\<rparr>" ex_heap 0 Throwing "[0, 1]" "[0, 1]" ex_fsm]
    ex_FSM_new
  by (simp add: ex_fsm_def)

subsection \<open>EventSpec.bindRegion\<close>

lemma bindRegion_loop_None:
  "bindRegion_loop h nm rl = None \<longleftrightarrow> (\<forall>q \<in> set rl. r_name (regionObj h q) \<noteq> nm)"
  by (induction rl) auto

lemma bindRegion_loop_first:
  assumes "\<forall>q \<in> set pre. r_name (regionObj h q) \<noteq> nm" and "r_name (regionObj h r) = nm"
  shows "bindRegion_loop h nm (pre @ r # post) = Some r"
  using assms by (induction pre) auto

text \<open>
  C7, as the code has it. \<open>bindRegion\<close> keeps event type and region name. With the region
  name \<open>*\<close> the bound region is absent. Otherwise, when some region of the list has
  exactly that name, the bound region is the first such region, whatever the event type
  (also for \<open>nevermatch\<close>, and for \<open>release_none\<close> or \<open>any\<close> with the empty name).
  When no region has that name, the bound region is left as it was (absent on a newly
  made spec): without a report when the event type is \<open>nevermatch\<close>, or when the name is
  empty and the type is \<open>release_none\<close> or \<open>any\<close>; in every other case with one
  reported error, which ends the binding by a throw when reporting aborts.
\<close>

theorem EventSpec_bindRegion_outcome:
  assumes "EventSpec_bindRegion mode es rl h = (es1, res, h1)"
  shows "evtType es1 = evtType es \<and> regionName es1 = regionName es
    \<and> (regionName es = ''*'' \<longrightarrow> region es1 = None \<and> res = Return () \<and> h1 = h)
    \<and> (regionName es \<noteq> ''*'' \<longrightarrow>
         (\<forall>pre r post.
            rl = pre @ r # post \<and> r_name (regionObj h r) = regionName es
            \<and> (\<forall>q \<in> set pre. r_name (regionObj h q) \<noteq> regionName es)
            \<longrightarrow> region es1 = Some r \<and> res = Return () \<and> h1 = h)
       \<and> ((\<forall>q \<in> set rl. r_name (regionObj h q) \<noteq> regionName es) \<longrightarrow>
            region es1 = region es
            \<and> (if evtType es = nevermatch
                   \<or> (regionName es = [] \<and> (evtType es = release_none \<or> evtType es = any))
                then res = Return () \<and> h1 = h
                else (\<exists>msg. reported h1 = reported h @ [msg]
                        \<and> res = (case mode of Throwing \<Rightarrow> Throw msg | Reporting \<Rightarrow> Return ())))))"
proof -
  have found: "region es1 = Some r \<and> res = Return () \<and> h1 = h"
    if "regionName es \<noteq> ''*''" "rl = pre @ r # post" "r_name (regionObj h r) = regionName es"
       "\<forall>q \<in> set pre. r_name (regionObj h q) \<noteq> regionName es" for pre r post
  proof -
    have "bindRegion_loop h (regionName es) rl = Some r"
      using that bindRegion_loop_first [of pre h "regionName es" r post] by simp
    then show ?thesis
      using assms that(1) by (auto simp: EventSpec_bindRegion_def)
  qed
  have missing: "region es1 = region es
            \<and> (if evtType es = nevermatch
                   \<or> (regionName es = [] \<and> (evtType es = release_none \<or> evtType es = any))
                then res = Return () \<and> h1 = h
                else (\<exists>msg. reported h1 = reported h @ [msg]
                        \<and> res = (case mode of Throwing \<Rightarrow> Throw msg | Reporting \<Rightarrow> Return ())))"
    if "regionName es \<noteq> ''*''" "\<forall>q \<in> set rl. r_name (regionObj h q) \<noteq> regionName es"
  proof -
    have "bindRegion_loop h (regionName es) rl = None"
      using that(2) by (simp add: bindRegion_loop_None)
    then show ?thesis
      using assms that(1)
      by (cases mode) (auto simp: EventSpec_bindRegion_def emit_def split: if_splits)
  qed
  have keep: "evtType es1 = evtType es \<and> regionName es1 = regionName es"
    using assms
    by (auto simp: EventSpec_bindRegion_def emit_def split: if_splits option.splits)
  have star: "regionName es = ''*'' \<Longrightarrow> region es1 = None \<and> res = Return () \<and> h1 = h"
    using assms by (auto simp: EventSpec_bindRegion_def)
  show ?thesis
    using found missing keep star by blast
qed

theorem EventSpec_bindRegion_outcome_witness:
  "EventSpec_bindRegion Throwing \<lparr>evtType = press, regionName = ''B'', region = None\<rparr> [0, 1] ex_heap
     = (\<lparr>evtType = press, regionName = ''B'', region = Some 1\<rparr>, Return (), ex_heap)
   \<and> fst (EventSpec_bindRegion Throwing \<lparr>evtType = press, regionName = ''Z'', region = None\<rparr> [0, 1] ex_heap)
     = \<lparr>evtType = press, regionName = ''Z'', region = None\<rparr>
   \<and> length (reported (snd (snd (EventSpec_bindRegion Throwing
        \<lparr>evtType = press, regionName = ''Z'', region = None\<rparr> [0, 1] ex_heap)))) = 1"
  using EventSpec_bindRegion_outcome [of Throwing "\<lparr>evtType = press, regionName = ''B'', region = None\<rparr>"
      "[0, 1]" ex_heap "\<lparr>evtType = press, regionName = ''B'', region = Some 1\<rparr>" "Return ()" ex_heap]
  by (simp add: EventSpec_bindRegion_def emit_def ex_defs)

text \<open>
  C7 as the spec states it fails: a \<open>nevermatch\<close> spec whose region name is declared is
  bound to that region, in either reading of the error channel, and so is an \<open>any\<close>
  spec with the empty name when a region has the empty name.
\<close>

theorem nevermatch_binds_region_counterexample:
  "region (fst (EventSpec_bindRegion Throwing
       \<lparr>evtType = nevermatch, regionName = ''A'', region = None\<rparr> [0, 1] ex_heap)) = Some 0
   \<and> region (fst (EventSpec_bindRegion Reporting
       \<lparr>evtType = nevermatch, regionName = ''A'', region = None\<rparr> [0, 1] ex_heap)) = Some 0
   \<and> region (fst (EventSpec_bindRegion Throwing \<lparr>evtType = any, regionName = [], region = None\<rparr> [0, 1]
        (ex_heap\<lparr>regionObj := (regionObj ex_heap)(1 := ex_regionB\<lparr>r_name := []\<rparr>)\<rparr>))) = Some 1"
  by (simp add: EventSpec_bindRegion_def ex_defs)

subsection \<open>Loading a description\<close>

text \<open>
  The lemmas below follow one load with \<open>Throwing\<close>: a call that throws has reported
  exactly the message it throws, and a call that returns has met no defect.
\<close>

lemma emit_Throwing: "emit Throwing msg h = (Throw msg, h\<lparr>reported := reported h @ [msg]\<rparr>)"
  by (simp add: emit_def)

lemma fromJson_regions_Throw:
  "fromJson_regions Throwing rs names regs h = (Throw e, h1) \<Longrightarrow> reported h1 = reported h @ [e]"
  by (induction rs arbitrary: names regs h)
     (auto simp: emit_Throwing Region_fromJson_def split: if_splits)

lemma fromJson_regions_distinct:
  "fromJson_regions Throwing rs names regs h = (Return regs1, h1) \<Longrightarrow>
     distinct (map r_name rs) \<and> r_name ` set rs \<inter> names = {}"
  by (induction rs arbitrary: names regs h)
     (fastforce simp: emit_Throwing Region_fromJson_def split: if_splits)+

lemma fromJson_regions_frame:
  "fromJson_regions Throwing rs names regs h = (Return regs1, h1) \<Longrightarrow>
     reported h1 = reported h \<and> stateObj h1 = stateObj h \<and> nextState h1 = nextState h"
  by (induction rs arbitrary: names regs h)
     (fastforce simp: emit_Throwing Region_fromJson_def split: if_splits)+

lemma fromJson_regions_names:
  "fromJson_regions Throwing rs names regs h = (Return regs1, h1) \<Longrightarrow>
   \<forall>r \<in> set regs. r < nextRegion h \<Longrightarrow>
     map (\<lambda>r. r_name (regionObj h1 r)) regs1 = map (\<lambda>r. r_name (regionObj h r)) regs @ map r_name rs"
proof (induction rs arbitrary: names regs h)
  case Nil
  then show ?case by simp
next
  case (Cons reg rest)
  from Cons.prems(1) have fresh: "r_name reg \<notin> names"
    by (auto simp: emit_Throwing split: if_splits)
  let ?h = "h\<lparr>regionObj := (regionObj h)(nextRegion h := reg), nextRegion := nextRegion h + 1\<rparr>"
  from Cons.prems(1) fresh
  have run: "fromJson_regions Throwing rest (insert (r_name reg) names) (regs @ [nextRegion h]) ?h
               = (Return regs1, h1)"
    by (simp add: Region_fromJson_def)
  have small: "\<forall>r \<in> set (regs @ [nextRegion h]). r < nextRegion ?h"
    using Cons.prems(2) by auto
  have old: "map (\<lambda>r. r_name (regionObj ?h r)) regs = map (\<lambda>r. r_name (regionObj h r)) regs"
    using Cons.prems(2) by auto
  show ?case
    using Cons.IH [OF run small] old by simp
qed

lemma fromJson_states_Throw:
  "fromJson_states Throwing ss names sts h = (Throw e, h1) \<Longrightarrow> reported h1 = reported h @ [e]"
  by (induction ss arbitrary: names sts h)
     (auto simp: emit_Throwing State_fromJson_def split: if_splits)

lemma fromJson_states_distinct:
  "fromJson_states Throwing ss names sts h = (Return sts1, h1) \<Longrightarrow>
     distinct (map sj_name ss) \<and> sj_name ` set ss \<inter> names = {}"
  by (induction ss arbitrary: names sts h)
     (fastforce simp: emit_Throwing State_fromJson_def split: if_splits)+

lemma fromJson_states_frame:
  "fromJson_states Throwing ss names sts h = (Return sts1, h1) \<Longrightarrow>
     reported h1 = reported h \<and> regionObj h1 = regionObj h"
  by (induction ss arbitrary: names sts h)
     (fastforce simp: emit_Throwing State_fromJson_def split: if_splits)+

lemma fromJson_states_objects:
  "fromJson_states Throwing ss names sts h = (Return sts1, h1) \<Longrightarrow>
   \<forall>s \<in> set sts. s < nextState h \<Longrightarrow> distinct sts \<Longrightarrow>
     map (stateObj h1) sts1 = map (stateObj h) sts @ map State_of_json ss \<and> distinct sts1"
proof (induction ss arbitrary: names sts h)
  case Nil
  then show ?case by simp
next
  case (Cons st rest)
  from Cons.prems(1) have fresh: "sj_name st \<notin> names"
    by (auto simp: emit_Throwing split: if_splits)
  let ?h = "h\<lparr>stateObj := (stateObj h)(nextState h := State_of_json st),
                nextState := nextState h + 1\<rparr>"
  from Cons.prems(1) fresh
  have run: "fromJson_states Throwing rest (insert (sj_name st) names) (sts @ [nextState h]) ?h
               = (Return sts1, h1)"
    by (simp add: State_fromJson_def)
  have small: "\<forall>s \<in> set (sts @ [nextState h]). s < nextState ?h"
    using Cons.prems(2) by auto
  have dist: "distinct (sts @ [nextState h])"
    using Cons.prems(2,3) by auto
  have old: "map (stateObj ?h) sts = map (stateObj h) sts"
    using Cons.prems(2) by auto
  show ?case
    using Cons.IH [OF run small dist] old by simp
qed

lemma bindRegion_loop_None_iff:
  "bindRegion_loop h nm rl = None \<longleftrightarrow> nm \<notin> set (map (\<lambda>r. r_name (regionObj h r)) rl)"
  by (induction rl) auto

lemma bindTarget_loop_None_iff:
  "bindTarget_loop h nm sl = None \<longleftrightarrow> nm \<notin> set (map (\<lambda>s. s_name (stateObj h s)) sl)"
  by (induction sl) auto

lemma EventSpec_bindRegion_Throwing:
  assumes "EventSpec_bindRegion Throwing es regs h = (es1, res, h1)"
  shows "(case res of
            Throw e \<Rightarrow> reported h1 = reported h @ [e]
          | Return u \<Rightarrow> h1 = h \<and>
              (event_needs_region es \<longrightarrow>
                 regionName es \<in> set (map (\<lambda>r. r_name (regionObj h r)) regs)))"
  using assms bindRegion_loop_None_iff [of h "regionName es" regs]
  by (auto simp: EventSpec_bindRegion_def emit_Throwing event_needs_region_def
           split: if_splits option.splits)

lemma Action_bindRegion_Throwing:
  assumes "Action_bindRegion Throwing a regs h = (a1, res, h1)"
  shows "(case res of
            Throw e \<Rightarrow> reported h1 = reported h @ [e]
          | Return u \<Rightarrow> h1 = h \<and>
              (action_needs_region a \<longrightarrow>
                 onRegionName a \<in> set (map (\<lambda>r. r_name (regionObj h r)) regs)))"
  using assms bindRegion_loop_None_iff [of h "onRegionName a" regs]
  by (auto simp: Action_bindRegion_def emit_Throwing action_needs_region_def
           split: if_splits option.splits)

lemma Transition_bindTarget_Throwing:
  assumes "Transition_bindTarget Throwing t sts h = (t1, res, h1)"
  shows "(case res of
            Throw e \<Rightarrow> reported h1 = reported h @ [e]
          | Return u \<Rightarrow> h1 = h \<and> onEvent t1 = onEvent t \<and> actions t1 = actions t \<and>
              targetName t \<in> set (map (\<lambda>s. s_name (stateObj h s)) sts))"
  using assms bindTarget_loop_None_iff [of h "targetName t" sts]
  by (auto simp: Transition_bindTarget_def emit_Throwing split: if_splits option.splits)

lemma finalize_actions_Throwing:
  "finalize_actions Throwing regs as h = (as1, res, h1) \<Longrightarrow>
     (case res of
        Throw e \<Rightarrow> reported h1 = reported h @ [e]
      | Return u \<Rightarrow> h1 = h \<and>
          (\<forall>a \<in> set as. action_needs_region a \<longrightarrow>
             onRegionName a \<in> set (map (\<lambda>r. r_name (regionObj h r)) regs)))"
proof (induction as arbitrary: as1 res h1 h)
  case Nil
  then show ?case by auto
next
  case (Cons a rest)
  obtain a1 r1 ha where step: "Action_bindRegion Throwing a regs h = (a1, r1, ha)"
    by (metis prod_cases3)
  note first = Action_bindRegion_Throwing [OF step]
  show ?case
  proof (cases r1)
    case (Throw e)
    with Cons.prems step first show ?thesis by auto
  next
    case (Return u)
    obtain rest1 r2 hb where more: "finalize_actions Throwing regs rest ha = (rest1, r2, hb)"
      by (metis prod_cases3)
    from Cons.prems step Return more have "res = r2" "h1 = hb" by auto
    with Cons.IH [OF more] first Return show ?thesis
      by (auto split: result.splits)
  qed
qed

lemma finalize_transition_Throwing:
  assumes "finalize_transition Throwing sts regs t h = (t1, res, h1)"
  shows "(case res of
            Throw e \<Rightarrow> reported h1 = reported h @ [e]
          | Return u \<Rightarrow> h1 = h \<and>
              \<not> unresolvable (map (\<lambda>s. s_name (stateObj h s)) sts)
                               (map (\<lambda>r. r_name (regionObj h r)) regs) t)"
proof -
  obtain ta ra ha where a: "Transition_bindTarget Throwing t sts h = (ta, ra, ha)"
    by (metis prod_cases3)
  note A = Transition_bindTarget_Throwing [OF a]
  show ?thesis
  proof (cases ra)
    case (Throw e)
    with assms a A show ?thesis by (auto simp: finalize_transition_def)
  next
    case Ra: (Return u)
    obtain es rb hb where b: "EventSpec_bindRegion Throwing (onEvent ta) regs ha = (es, rb, hb)"
      by (metis prod_cases3)
    note B = EventSpec_bindRegion_Throwing [OF b]
    show ?thesis
    proof (cases rb)
      case (Throw e)
      with assms a b A B Ra show ?thesis by (auto simp: finalize_transition_def)
    next
      case Rb: (Return v)
      obtain acts rc hc where c: "finalize_actions Throwing regs (actions ta) hb = (acts, rc, hc)"
        by (metis prod_cases3)
      note C = finalize_actions_Throwing [OF c]
      from assms a b c Ra Rb have "res = rc" "h1 = hc"
        by (auto simp: finalize_transition_def)
      with A B C Ra Rb show ?thesis
        by (auto simp: unresolvable_def split: result.splits)
    qed
  qed
qed

lemma finalize_transitions_Throwing:
  "finalize_transitions Throwing sts regs ts h = (ts1, res, h1) \<Longrightarrow>
     (case res of
        Throw e \<Rightarrow> reported h1 = reported h @ [e]
      | Return u \<Rightarrow> h1 = h \<and>
          (\<forall>t \<in> set ts. \<not> unresolvable (map (\<lambda>s. s_name (stateObj h s)) sts)
                                         (map (\<lambda>r. r_name (regionObj h r)) regs) t))"
proof (induction ts arbitrary: ts1 res h1 h)
  case Nil
  then show ?case by auto
next
  case (Cons t rest)
  obtain t1 r1 ha where step: "finalize_transition Throwing sts regs t h = (t1, r1, ha)"
    by (metis prod_cases3)
  note first = finalize_transition_Throwing [OF step]
  show ?case
  proof (cases r1)
    case (Throw e)
    with Cons.prems step first show ?thesis by auto
  next
    case (Return u)
    obtain rest1 r2 hb where more: "finalize_transitions Throwing sts regs rest ha = (rest1, r2, hb)"
      by (metis prod_cases3)
    from Cons.prems step Return more have "res = r2" "h1 = hb" by auto
    with Cons.IH [OF more] first Return show ?thesis
      by (auto split: result.splits)
  qed
qed

lemma finalize_states_Throwing:
  "finalize_states Throwing sts regs todo h = (res, h1) \<Longrightarrow> distinct todo \<Longrightarrow>
     (case res of
        Throw e \<Rightarrow> reported h1 = reported h @ [e]
      | Return u \<Rightarrow> reported h1 = reported h \<and>
          (\<forall>s \<in> set todo. \<forall>t \<in> set (transitions (stateObj h s)).
             \<not> unresolvable (map (\<lambda>s. s_name (stateObj h s)) sts)
                              (map (\<lambda>r. r_name (regionObj h r)) regs) t))"
proof (induction todo arbitrary: h)
  case Nil
  then show ?case by auto
next
  case (Cons s rest)
  obtain trs r1 ha where inner:
    "finalize_transitions Throwing sts regs (transitions (stateObj h s)) h = (trs, r1, ha)"
    by (metis prod_cases3)
  note I = finalize_transitions_Throwing [OF inner]
  let ?h2 = "ha\<lparr>stateObj := (stateObj ha)(s := (stateObj ha s)\<lparr>transitions := trs\<rparr>)\<rparr>"
  show ?case
  proof (cases r1)
    case (Throw e)
    with Cons.prems(1) inner I show ?thesis by (auto simp: Let_def)
  next
    case (Return u)
    with I have same: "ha = h" by simp
    from Cons.prems(1) inner Return
    have run: "finalize_states Throwing sts regs rest ?h2 = (res, h1)"
      by (simp add: Let_def)
    from Cons.prems(2) have dist: "distinct rest" and notin: "s \<notin> set rest" by auto
    have snames: "map (\<lambda>x. s_name (stateObj ?h2 x)) sts = map (\<lambda>x. s_name (stateObj h x)) sts"
      using same by auto
    have rnames: "map (\<lambda>r. r_name (regionObj ?h2 r)) regs = map (\<lambda>r. r_name (regionObj h r)) regs"
      using same by auto
    have others: "\<And>x. x \<in> set rest \<Longrightarrow> stateObj ?h2 x = stateObj h x"
      using same notin by auto
    have rep: "reported ?h2 = reported h"
      using same by simp
    note IH = Cons.IH [OF run dist]
    show ?thesis
    proof (cases res)
      case (Throw e)
      with IH rep show ?thesis by simp
    next
      case R: (Return v)
      with IH have tail: "reported h1 = reported ?h2"
        "\<forall>x \<in> set rest. \<forall>t \<in> set (transitions (stateObj ?h2 x)).
           \<not> unresolvable (map (\<lambda>x. s_name (stateObj ?h2 x)) sts)
                            (map (\<lambda>r. r_name (regionObj ?h2 r)) regs) t"
        by simp_all
      from tail(2) have tail2: "\<forall>x \<in> set rest. \<forall>t \<in> set (transitions (stateObj h x)).
           \<not> unresolvable (map (\<lambda>x. s_name (stateObj h x)) sts)
                            (map (\<lambda>r. r_name (regionObj h r)) regs) t"
        unfolding snames rnames using others by simp
      from I Return have head: "\<forall>t \<in> set (transitions (stateObj h s)).
           \<not> unresolvable (map (\<lambda>x. s_name (stateObj h x)) sts)
                            (map (\<lambda>r. r_name (regionObj h r)) regs) t"
        by simp
      from R tail(1) rep tail2 head show ?thesis by simp
    qed
  qed
qed

lemma FSM_new_Throwing:
  assumes "FSM_new Throwing regs sts h = (res, h1)" and "distinct sts"
  shows "(case res of
            Throw e \<Rightarrow> reported h1 = reported h @ [e]
          | Return f \<Rightarrow>
              (\<forall>s \<in> set sts. \<forall>t \<in> set (transitions (stateObj h s)).
                 \<not> unresolvable (map (\<lambda>s. s_name (stateObj h s)) sts)
                                  (map (\<lambda>r. r_name (regionObj h r)) regs) t))"
proof -
  obtain r1 ha where run: "finalize_states Throwing sts regs sts h = (r1, ha)"
    by (metis surj_pair)
  note F = finalize_states_Throwing [OF run assms(2)]
  from assms(1) run show ?thesis
    using F by (cases r1) (auto simp: FSM_new_def finalize_def Let_def split: if_splits)
qed

lemma FSM_fromJson_Throwing:
  assumes "FSM_fromJson Throwing d h = (res, h1)"
  shows "(case res of
            Throw e \<Rightarrow> reported h1 = reported h @ [e]
          | Return f \<Rightarrow> \<not> malformed d)"
proof -
  obtain r1 ha where p1: "fromJson_region_part Throwing d h = (r1, ha)"
    by (metis surj_pair)
  show ?thesis
  proof (cases r1)
    case (Throw e)
    with p1 have "reported ha = reported h @ [e]"
      by (auto simp: fromJson_region_part_def emit_Throwing fromJson_regions_Throw
               split: json_array.splits)
    with assms p1 Throw show ?thesis by (auto simp: FSM_fromJson_def)
  next
    case R1: (Return regs1)
    with p1 obtain rs where rs: "j_regions d = Array rs"
      and loop1: "fromJson_regions Throwing rs {} [] h = (Return regs1, ha)"
      by (auto simp: fromJson_region_part_def emit_Throwing split: json_array.splits)
    note d1 = fromJson_regions_distinct [OF loop1]
    note f1 = fromJson_regions_frame [OF loop1]
    have n1: "map (\<lambda>r. r_name (regionObj ha r)) regs1 = map r_name rs"
      using fromJson_regions_names [OF loop1] by simp
    obtain r2 hb where p2: "fromJson_state_part Throwing d ha = (r2, hb)"
      by (metis surj_pair)
    show ?thesis
    proof (cases r2)
      case (Throw e)
      with p2 have "reported hb = reported ha @ [e]"
        by (auto simp: fromJson_state_part_def emit_Throwing fromJson_states_Throw
                 split: json_array.splits if_splits)
      with assms p1 p2 R1 Throw f1 show ?thesis by (auto simp: FSM_fromJson_def)
    next
      case R2: (Return sts1)
      with p2 obtain ss where ss: "j_states d = Array ss" and ne: "ss \<noteq> []"
        and loop2: "fromJson_states Throwing ss {} [] ha = (Return sts1, hb)"
        by (auto simp: fromJson_state_part_def emit_Throwing split: json_array.splits if_splits)
      note d2 = fromJson_states_distinct [OF loop2]
      note f2 = fromJson_states_frame [OF loop2]
      have o2: "map (stateObj hb) sts1 = map State_of_json ss" "distinct sts1"
        using fromJson_states_objects [OF loop2] by simp_all
      from assms p1 p2 R1 R2 have new: "FSM_new Throwing regs1 sts1 hb = (res, h1)"
        by (simp add: FSM_fromJson_def)
      note N = FSM_new_Throwing [OF new o2(2)]
      show ?thesis
      proof (cases res)
        case (Throw e)
        with N f1 f2 show ?thesis by simp
      next
        case (Return f)
        have "map (\<lambda>s. s_name (stateObj hb s)) sts1 = map s_name (map (stateObj hb) sts1)"
          by simp
        also have "\<dots> = map sj_name ss"
          by (simp add: o2(1) State_of_json_def)
        finally have sn: "map (\<lambda>s. s_name (stateObj hb s)) sts1 = map sj_name ss" .
        have rn: "map (\<lambda>r. r_name (regionObj hb r)) regs1 = map r_name rs"
          using n1 f2 by simp
        from N Return have all: "\<forall>s \<in> set sts1. \<forall>t \<in> set (transitions (stateObj hb s)).
                 \<not> unresolvable (map sj_name ss) (map r_name rs) t"
          unfolding sn rn by simp
        have "\<forall>st \<in> set ss. \<forall>tj \<in> set (sj_transitions st).
                 \<not> unresolvable (map sj_name ss) (map r_name rs) (Transition_fromJson tj)"
        proof
          fix st assume "st \<in> set ss"
          then have "State_of_json st \<in> set (map (stateObj hb) sts1)" using o2(1) by simp
          then obtain s where "s \<in> set sts1" "stateObj hb s = State_of_json st" by auto
          with all show "\<forall>tj \<in> set (sj_transitions st).
                 \<not> unresolvable (map sj_name ss) (map r_name rs) (Transition_fromJson tj)"
            by (auto simp: State_of_json_def)
        qed
        with rs ss ne d1 d2 Return show ?thesis
          by (simp add: malformed_def)
      qed
    qed
  qed
qed

lemmas load_defs = startLoadFromJson_def FSM_fromJson_def fromJson_region_part_def
  fromJson_state_part_def Region_fromJson_def State_fromJson_def State_of_json_def
  Transition_fromJson_def EventSpec_fromJson_def Action_fromJson_def FSM_new_def finalize_def
  finalize_transition_def Transition_bindTarget_def EventSpec_bindRegion_def
  Action_bindRegion_def emit_def Let_def

text \<open>The description of the example machine loads without a report.\<close>

lemma load_example_succeeds:
  "fst (startLoadFromJson Throwing ''fsm.json'' (Json ex_description) (ex_interactor, ex_heap)) = Return ()
   \<and> fsm (fst (snd (startLoadFromJson Throwing ''fsm.json'' (Json ex_description) (ex_interactor, ex_heap))))
       = Some \<lparr>regions = [2, 3], states = [2, 3], startState = Some 2, currentState = Some 2\<rparr>
   \<and> reported (snd (snd (startLoadFromJson Throwing ''fsm.json'' (Json ex_description) (ex_interactor, ex_heap)))) = []
   \<and> stateObj (snd (snd (startLoadFromJson Throwing ''fsm.json'' (Json ex_description) (ex_interactor, ex_heap)))) 3
       = \<lparr>s_name = ''over'', transitions =
            [\<lparr>onEvent = \<lparr>evtType = exit, regionName = ''A'', region = Some 2\<rparr>,
              actions = [\<lparr>actType = clear_image, onRegionName = ''A'', param = [], onRegion = Some 2\<rparr>],
              targetName = ''idle'', target = Some 2\<rparr>]\<rparr>
   \<and> \<not> load_failure (Json ex_description)"
  by (simp add: load_defs ex_description_def ex_defs load_failure_def malformed_def
      unresolvable_def event_needs_region_def action_needs_region_def)

text \<open>
  With a throwing \<open>Err.emit\<close>, every failed load -- the fetch rejected or not ok, a body
  that does not parse, or a malformed description -- ends by a throw; when \<open>Err.emit\<close>
  was reached, exactly the thrown message has been reported; \<open>FSM.fromJson\<close> returns no
  FSM; and the interactor is left as it was, its FSM reference included.
\<close>

lemma throwing_load_aborts:
  assumes "load_failure response"
  shows "\<exists>e. fst (startLoadFromJson Throwing jsonLoc response (it, h)) = Throw e
            \<and> (response \<noteq> FetchRejected \<and> response \<noteq> BadJson \<longrightarrow>
                 reported (snd (snd (startLoadFromJson Throwing jsonLoc response (it, h))))
                   = reported h @ [e])
            \<and> (\<forall>d. response = Json d \<longrightarrow> fst (FSM_fromJson Throwing d h) = Throw e)
            \<and> fst (snd (startLoadFromJson Throwing jsonLoc response (it, h))) = it"
proof (cases response)
  case FetchRejected
  then show ?thesis by (simp add: startLoadFromJson_def)
next
  case NotOk
  then show ?thesis by (simp add: startLoadFromJson_def emit_Throwing)
next
  case BadJson
  then show ?thesis by (simp add: startLoadFromJson_def)
next
  case (Json d)
  obtain res h1 where run: "FSM_fromJson Throwing d h = (res, h1)"
    by (metis surj_pair)
  from assms Json have bad: "malformed d"
    by (simp add: load_failure_def)
  from FSM_fromJson_Throwing [OF run] bad obtain e
    where e: "res = Throw e" "reported h1 = reported h @ [e]"
    by (cases res) auto
  with Json run show ?thesis
    by (simp add: startLoadFromJson_def)
qed

lemma throwing_load_aborts_example:
  "load_failure (Json ex_dangling)
   \<and> fst (startLoadFromJson Throwing ''fsm.json'' (Json ex_dangling) (ex_interactor, ex_heap))
       = Throw (''State '' @ [CHR 0x27] @ ''nowhere'' @ [CHR 0x27] @ '' in transition does not match any state.'')
   \<and> fst (snd (startLoadFromJson Throwing ''fsm.json'' (Json ex_dangling) (ex_interactor, ex_heap)))
       = ex_interactor
   \<and> length (reported (snd (snd (startLoadFromJson Throwing ''fsm.json'' (Json ex_dangling)
        (ex_interactor, ex_heap))))) = 1"
  using throwing_load_aborts [of "Json ex_dangling" "''fsm.json''" ex_interactor ex_heap]
  by (simp add: load_defs ex_dangling_def ex_defs load_failure_def malformed_def
      unresolvable_def event_needs_region_def action_needs_region_def)

text \<open>
  C5. On a failed load the FSM reference of the interactor should be left cleared and no
  partial FSM returned; \<open>startLoadFromJson\<close> does not do so. Loaded into an interactor that
  has an FSM: a body that does not parse ends the call by a throw with the previous FSM
  still installed, whatever \<open>Err.emit\<close> does; a description with an empty state list
  leaves the previous FSM installed when \<open>Err.emit\<close> throws, and when \<open>Err.emit\<close> returns
  the error is reported, an FSM without a current state is still built, and it is
  installed.
\<close>

theorem load_failure_leaves_fsm:
  "fsm ex_interactor = Some ex_fsm
   \<and> startLoadFromJson Throwing ''fsm.json'' BadJson (ex_interactor, ex_heap)
       = (Throw ''response body is not JSON'', ex_interactor, ex_heap)
   \<and> startLoadFromJson Reporting ''fsm.json'' BadJson (ex_interactor, ex_heap)
       = (Throw ''response body is not JSON'', ex_interactor, ex_heap)
   \<and> fsm (fst (snd (startLoadFromJson Throwing ''fsm.json'' (Json ex_empty) (ex_interactor, ex_heap))))
       = Some ex_fsm
   \<and> fst (startLoadFromJson Reporting ''fsm.json'' (Json ex_empty) (ex_interactor, ex_heap)) = Return ()
   \<and> fsm (fst (snd (startLoadFromJson Reporting ''fsm.json'' (Json ex_empty) (ex_interactor, ex_heap))))
       = Some \<lparr>regions = [2], states = [], startState = None, currentState = None\<rparr>
   \<and> reported (snd (snd (startLoadFromJson Reporting ''fsm.json'' (Json ex_empty) (ex_interactor, ex_heap))))
       = [''No states provide for FSM in FSM.fromJson()'']"
  by (simp add: load_defs ex_empty_def ex_defs)

end
